theory Spec2Isabelle
  imports Complex_Main "HOL-Library.Multiset"
begin

section \<open>Music Streaming System: the data model\<close>

text \<open>
  The program is one Python module, \<^verbatim>\<open>Music_Streaming_System.py\<close>. Its classes are
  embedded as follows.
  \<^item> \<^verbatim>\<open>Song\<close> is a record of its four attributes.
  \<^item> The three \<^verbatim>\<open>PlaybackStrategy\<close> subclasses have no attributes; an instance is a
    constructor of the datatype \<open>strategy\<close>.
  \<^item> \<^verbatim>\<open>MusicPlayer\<close> objects live in a store (field \<open>heap\<close> of the record \<open>world\<close>),
    because the class hands out references to one shared object. The class attribute
    \<^verbatim>\<open>_instance\<close> is the field \<open>MusicPlayer_instance\<close>.
  \<^item> A playlist and the decorators wrapped around it form a chain of objects, each
    holding the next in \<^verbatim>\<open>_playlist\<close>. The chain is the datatype \<open>playlist\<close>; a method
    that changes an attribute of an object of the chain returns the chain updated.
  \<^item> \<^verbatim>\<open>print\<close> and \<^verbatim>\<open>time.sleep\<close> append an event to the field \<open>out\<close>; the emoji and
    the layout of the printed lines are not modelled, each line is a constructor of
    \<open>message\<close> carrying the values the source formats into it.
  \<^item> \<^verbatim>\<open>time.time()\<close> reads the wall clock, which the program does not control: the
    readings are an input, the field \<open>wall_clock\<close>, and every call takes the next one.
    A reading is a Python float, and the arithmetic on readings is float arithmetic.
  \<^item> An exception is the left summand of a result \<open>error + 'a\<close>.
\<close>

record song =
  title :: string
  artist :: string
  duration :: int
  format_type :: string

datatype strategy = MP3Strategy | FLACStrategy | StreamingStrategy

datatype error = AttributeError | KeyError | ZeroDivisionError | OverflowError

text \<open>The attributes \<^verbatim>\<open>__init__\<close> of \<^verbatim>\<open>MusicPlayer\<close> sets.\<close>

record music_player =
  current_song :: "song option"
  is_playing :: bool
  volume :: int
  playback_strategy :: "strategy option"

text \<open>
  \<^verbatim>\<open>__new__\<close> creates an object that has the one attribute \<^verbatim>\<open>_initialized = False\<close>:
  that is \<open>Uninitialized\<close>. \<^verbatim>\<open>__init__\<close> sets \<^verbatim>\<open>_initialized = True\<close> and the four other
  attributes: that is \<open>Initialized\<close>.
\<close>

datatype player_obj = Uninitialized | Initialized music_player

datatype message =
    Music_Player_initialized
  | No_playback_strategy_set
  | Paused string
  | Playback_stopped
  | Volume_set_to int
  | Playing_MP3 string string
  | Using_MP3_decoder
  | Playing_FLAC string string
  | Using_FLAC_decoder
  | Streaming string string
  | Buffering
  | Added_to_playlist string string
  | Playing_playlist string
  | Shuffle_mode_enabled
  | Playing_shuffled_playlist
  | Repeat_mode_enabled int
  | Playing_playlist_Round int
  | Repeating_playlist
  | Analytics_tracking_enabled
  | Session_complete int

datatype event = Print message | Sleep rat

section \<open>Python floats\<close>

text \<open>
  A Python float is an IEEE 754 binary64 number: a finite value, which is a rational, an
  infinity or a NaN. The results of the operations are rounded to the nearest binary64
  value, a tie going to the even significand. The sign of a zero is not kept: Python
  compares 0.0 and -0.0 as equal.
\<close>

datatype pyfloat = Finite rat | PosInf | NegInf | NaN

text \<open>\<^verbatim>\<open>int.bit_length\<close>: the number of binary digits of a positive integer.\<close>

function bit_length :: "int \<Rightarrow> nat" where
  "bit_length n = (if n \<le> 0 then 0 else Suc (bit_length (n div 2)))"
  by pat_completeness auto
termination
  by (relation "measure nat") auto

declare bit_length.simps [simp del]

definition pow2 :: "int \<Rightarrow> rat" where
  "pow2 e = (if 0 \<le> e then 2 ^ nat e else 1 / 2 ^ nat (- e))"

text \<open>
  For \<open>x > 0\<close>, the exponent \<open>e\<close> with \<open>pow2 e \<le> x < pow2 (e + 1)\<close>, from the bit lengths of
  numerator and denominator.
\<close>

definition floor_log2 :: "rat \<Rightarrow> int" where
  "floor_log2 x =
     (case quotient_of x of
        (n, d) \<Rightarrow>
          (let e0 = int (bit_length n) - int (bit_length d)
           in if pow2 e0 \<le> x then e0 else e0 - 1))"

text \<open>To the nearest integer, a tie going to the even one.\<close>

definition round_half_even :: "rat \<Rightarrow> int" where
  "round_half_even y =
     (let f = \<lfloor>y\<rfloor>; d = y - of_int f
      in if d < 1/2 then f else if 1/2 < d then f + 1 else if even f then f else f + 1)"

text \<open>
  Rounding a rational to binary64: the value is \<open>m\<close> times the spacing \<open>q\<close>, with \<open>m\<close> of at
  most 53 bits; the exponent is not under -1022 (below that the spacing of the subnormal
  numbers stays); and the result is an infinity when the rounded value reaches 2 to the
  power 1024, that is when the exponent is 1024 or more, or is 1023 and \<open>m\<close> has been
  rounded up to 2 to the power 53.
\<close>

definition round_to_binary64 :: "rat \<Rightarrow> pyfloat" where
  "round_to_binary64 x =
     (if x = 0 then Finite 0
      else
        (let e = max (floor_log2 \<bar>x\<bar>) (- 1022);
             q = pow2 (e - 52);
             m = round_half_even (x / q)
         in if 1024 \<le> e \<or> e = 1023 \<and> 2 ^ 53 \<le> \<bar>m\<bar>
            then (if 0 < x then PosInf else NegInf)
            else Finite (of_int m * q)))"



text \<open>Negation, addition and subtraction of floats; none of them raises.\<close>

fun float_neg :: "pyfloat \<Rightarrow> pyfloat" where
  "float_neg (Finite x) = Finite (- x)"
| "float_neg PosInf = NegInf"
| "float_neg NegInf = PosInf"
| "float_neg NaN = NaN"

fun float_add :: "pyfloat \<Rightarrow> pyfloat \<Rightarrow> pyfloat" where
  "float_add (Finite a) (Finite b) = round_to_binary64 (a + b)"
| "float_add NaN b = NaN"
| "float_add a NaN = NaN"
| "float_add PosInf NegInf = NaN"
| "float_add NegInf PosInf = NaN"
| "float_add PosInf b = PosInf"
| "float_add NegInf b = NegInf"
| "float_add (Finite a) b = b"

definition float_sub :: "pyfloat \<Rightarrow> pyfloat \<Rightarrow> pyfloat" where
  "float_sub a b = float_add a (float_neg b)"




text \<open>
  The attribute \<^verbatim>\<open>total_listening_time\<close> holds the \<^verbatim>\<open>int\<close> 0 the constructor stores, or a
  float once a play has added one. On the \<^verbatim>\<open>int\<close> 0 the three operations the class applies
  are those of \<^verbatim>\<open>int\<close>: \<^verbatim>\<open>0 + d\<close> converts 0 to the float 0.0 and adds; \<^verbatim>\<open>0 / n\<close> is the
  float 0.0 for every integer \<open>n\<close> but 0, however large; \<^verbatim>\<open>round(0, 1)\<close> is the \<^verbatim>\<open>int\<close> 0.
\<close>

datatype pynum = Int0 | Float pyfloat

fun py_add :: "pynum \<Rightarrow> pyfloat \<Rightarrow> pynum" where
  "py_add Int0 d = Float (float_add (Finite 0) d)"
| "py_add (Float a) d = Float (float_add a d)"



section \<open>The world\<close>

type_synonym ref = nat

text \<open>
  \<open>allocated\<close> counts the objects \<^verbatim>\<open>object.__new__\<close> has created; the next object gets
  that address. \<open>rng\<close> is the sequence of raw draws the module \<^verbatim>\<open>random\<close> will hand out,
  \<open>wall_clock\<close> the sequence of readings \<^verbatim>\<open>time.time()\<close> will return.
\<close>

record world =
  MusicPlayer_instance :: "ref option"
  heap :: "ref \<Rightarrow> player_obj"
  allocated :: nat
  wall_clock :: "nat \<Rightarrow> pyfloat"
  rng :: "nat \<Rightarrow> nat"
  out :: "event list"

definition py_print :: "message \<Rightarrow> world \<Rightarrow> world" where
  "py_print m w = w\<lparr>out := out w @ [Print m]\<rparr>"

definition time_sleep :: "rat \<Rightarrow> world \<Rightarrow> world" where
  "time_sleep d w = w\<lparr>out := out w @ [Sleep d]\<rparr>"

definition time_time :: "world \<Rightarrow> pyfloat \<times> world" where
  "time_time w = (wall_clock w 0, w\<lparr>wall_clock := (\<lambda>k. wall_clock w (Suc k))\<rparr>)"

text \<open>The state of the class before its first use: no instance, no object.\<close>

definition initial_world :: "(nat \<Rightarrow> nat) \<Rightarrow> (nat \<Rightarrow> pyfloat) \<Rightarrow> world" where
  "initial_world draws readings =
     \<lparr>MusicPlayer_instance = None, heap = (\<lambda>_. Uninitialized), allocated = 0,
      wall_clock = readings, rng = draws, out = []\<rparr>"

section \<open>The singleton \<^verbatim>\<open>MusicPlayer\<close>\<close>

text \<open>
  \<^verbatim>\<open>__new__\<close>: the test of \<^verbatim>\<open>_instance\<close>, the lock, the second test. In a single thread
  the lock is free when it is taken, so \<^verbatim>\<open>with cls._lock\<close> does nothing to the state.
  The value returned is what \<^verbatim>\<open>cls._instance\<close> holds at the \<^verbatim>\<open>return\<close>.
\<close>

definition MusicPlayer_new :: "world \<Rightarrow> ref \<times> world" where
  "MusicPlayer_new w =
     (case MusicPlayer_instance w of
        None \<Rightarrow>
          (case MusicPlayer_instance w of
             None \<Rightarrow>
               (let r = allocated w
                in (r, w\<lparr>MusicPlayer_instance := Some r,
                         heap := (heap w)(r := Uninitialized),
                         allocated := Suc (allocated w)\<rparr>))
           | Some r \<Rightarrow> (r, w))
      | Some r \<Rightarrow> (r, w))"

definition MusicPlayer_init :: "ref \<Rightarrow> world \<Rightarrow> world" where
  "MusicPlayer_init self w =
     (case heap w self of
        Initialized _ \<Rightarrow> w
      | Uninitialized \<Rightarrow>
          py_print Music_Player_initialized
            (w\<lparr>heap := (heap w)(self := Initialized
                 \<lparr>current_song = None, is_playing = False, volume = 50,
                  playback_strategy = None\<rparr>)\<rparr>))"

text \<open>The call \<^verbatim>\<open>MusicPlayer()\<close>: \<^verbatim>\<open>__new__\<close>, then \<^verbatim>\<open>__init__\<close> on what it returned.\<close>

definition MusicPlayer_call :: "world \<Rightarrow> ref \<times> world" where
  "MusicPlayer_call w = (case MusicPlayer_new w of (r, w') \<Rightarrow> (r, MusicPlayer_init r w'))"

text \<open>
  A method reads the attributes of \<^verbatim>\<open>self\<close>; on an object that \<^verbatim>\<open>__init__\<close> has not
  run on they are missing and Python raises \<^verbatim>\<open>AttributeError\<close>.
\<close>

definition get_self :: "ref \<Rightarrow> world \<Rightarrow> error + music_player" where
  "get_self self w =
     (case heap w self of Uninitialized \<Rightarrow> Inl AttributeError | Initialized p \<Rightarrow> Inr p)"

definition put_self :: "ref \<Rightarrow> music_player \<Rightarrow> world \<Rightarrow> world" where
  "put_self self p w = w\<lparr>heap := (heap w)(self := Initialized p)\<rparr>"

definition set_playback_strategy :: "ref \<Rightarrow> strategy \<Rightarrow> world \<Rightarrow> error + world" where
  "set_playback_strategy self s w =
     (case get_self self w of
        Inl e \<Rightarrow> Inl e
      | Inr p \<Rightarrow> Inr (put_self self (p\<lparr>playback_strategy := Some s\<rparr>) w))"

text \<open>The \<^verbatim>\<open>play\<close> method of each strategy: two printed lines and a sleep.\<close>

fun PlaybackStrategy_play :: "strategy \<Rightarrow> song \<Rightarrow> world \<Rightarrow> world" where
  "PlaybackStrategy_play MP3Strategy s w =
     time_sleep (1/2) (py_print Using_MP3_decoder (py_print (Playing_MP3 (title s) (artist s)) w))"
| "PlaybackStrategy_play FLACStrategy s w =
     time_sleep 1 (py_print Using_FLAC_decoder (py_print (Playing_FLAC (title s) (artist s)) w))"
| "PlaybackStrategy_play StreamingStrategy s w =
     time_sleep (3/10) (py_print Buffering (py_print (Streaming (title s) (artist s)) w))"

fun get_format_info :: "strategy \<Rightarrow> string" where
  "get_format_info MP3Strategy = ''MP3: Lossy compression, smaller file size''"
| "get_format_info FLACStrategy = ''FLAC: Lossless compression, high quality audio''"
| "get_format_info StreamingStrategy = ''Streaming: Adaptive bitrate, network dependent''"

definition MusicPlayer_play :: "ref \<Rightarrow> song \<Rightarrow> world \<Rightarrow> error + world" where
  "MusicPlayer_play self s w =
     (case get_self self w of
        Inl e \<Rightarrow> Inl e
      | Inr p \<Rightarrow>
          (case playback_strategy p of
             None \<Rightarrow> Inr (py_print No_playback_strategy_set w)
           | Some strat \<Rightarrow>
               Inr (PlaybackStrategy_play strat s
                      (put_self self (p\<lparr>current_song := Some s, is_playing := True\<rparr>) w))))"

definition MusicPlayer_pause :: "ref \<Rightarrow> world \<Rightarrow> error + world" where
  "MusicPlayer_pause self w =
     (case get_self self w of
        Inl e \<Rightarrow> Inl e
      | Inr p \<Rightarrow>
          (if is_playing p then
             Inr (py_print (Paused (case current_song p of Some s \<Rightarrow> title s | None \<Rightarrow> ''Unknown''))
                    (put_self self (p\<lparr>is_playing := False\<rparr>) w))
           else Inr w))"

definition MusicPlayer_stop :: "ref \<Rightarrow> world \<Rightarrow> error + world" where
  "MusicPlayer_stop self w =
     (case get_self self w of
        Inl e \<Rightarrow> Inl e
      | Inr p \<Rightarrow>
          Inr (py_print Playback_stopped
                 (put_self self (p\<lparr>is_playing := False, current_song := None\<rparr>) w)))"

definition set_volume :: "ref \<Rightarrow> int \<Rightarrow> world \<Rightarrow> error + world" where
  "set_volume self v w =
     (case get_self self w of
        Inl e \<Rightarrow> Inl e
      | Inr p \<Rightarrow>
          (let p' = p\<lparr>volume := max 0 (min 100 v)\<rparr>
           in Inr (py_print (Volume_set_to (volume p')) (put_self self p' w))))"

section \<open>Choosing a strategy for a song\<close>

text \<open>
  The dictionary \<^verbatim>\<open>self.strategies\<close> that \<^verbatim>\<open>MusicStreamingSystem.__init__\<close> builds, and the
  expression \<^verbatim>\<open>self.strategies.get(song.format_type, self.strategies['mp3'])\<close> of
  \<^verbatim>\<open>demonstrate_strategy\<close>. The default is an argument, so the subscript \<^verbatim>\<open>['mp3']\<close> is
  evaluated first, and raises \<^verbatim>\<open>KeyError\<close> on a dictionary without that key.
\<close>

definition strategies :: "string \<rightharpoonup> strategy" where
  "strategies =
     [''mp3'' \<mapsto> MP3Strategy, ''flac'' \<mapsto> FLACStrategy, ''streaming'' \<mapsto> StreamingStrategy]"

definition select_strategy :: "(string \<rightharpoonup> strategy) \<Rightarrow> song \<Rightarrow> error + strategy" where
  "select_strategy d s =
     (case d ''mp3'' of
        None \<Rightarrow> Inl KeyError
      | Some dflt \<Rightarrow> Inr (case d (format_type s) of None \<Rightarrow> dflt | Some strat \<Rightarrow> strat))"

section \<open>Playlists and their decorators\<close>

text \<open>
  The chain of objects: a \<^verbatim>\<open>BasicPlaylist\<close> with its name and songs, or a decorator
  with the playlist it wraps and its own attributes (\<^verbatim>\<open>repeat_count\<close>; \<^verbatim>\<open>play_count\<close> and
  \<^verbatim>\<open>total_listening_time\<close>).
\<close>

datatype playlist =
    BasicPlaylist string "song list"
  | PlaylistDecorator playlist
  | ShuffleDecorator playlist
  | RepeatDecorator playlist int
  | AnalyticsDecorator playlist int pynum

text \<open>
  \<^verbatim>\<open>get_songs\<close>: the base playlist returns a copy of its list, a decorator delegates.
\<close>

fun get_songs :: "playlist \<Rightarrow> song list" where
  "get_songs (BasicPlaylist name songs) = songs"
| "get_songs (PlaylistDecorator p) = get_songs p"
| "get_songs (ShuffleDecorator p) = get_songs p"
| "get_songs (RepeatDecorator p n) = get_songs p"
| "get_songs (AnalyticsDecorator p c t) = get_songs p"

text \<open>\<^verbatim>\<open>add_song\<close>: the base playlist appends and prints, a decorator delegates.\<close>

fun add_song :: "playlist \<Rightarrow> song \<Rightarrow> world \<Rightarrow> playlist \<times> world" where
  "add_song (BasicPlaylist name songs) s w =
     (BasicPlaylist name (songs @ [s]), py_print (Added_to_playlist (title s) name) w)"
| "add_song (PlaylistDecorator p) s w =
     (case add_song p s w of (p', w') \<Rightarrow> (PlaylistDecorator p', w'))"
| "add_song (ShuffleDecorator p) s w =
     (case add_song p s w of (p', w') \<Rightarrow> (ShuffleDecorator p', w'))"
| "add_song (RepeatDecorator p n) s w =
     (case add_song p s w of (p', w') \<Rightarrow> (RepeatDecorator p' n, w'))"
| "add_song (AnalyticsDecorator p c t) s w =
     (case add_song p s w of (p', w') \<Rightarrow> (AnalyticsDecorator p' c t, w'))"

text \<open>
  The loop \<^verbatim>\<open>for song in songs: player.play(song); time.sleep(0.2)\<close>, which
  \<^verbatim>\<open>BasicPlaylist.play_all\<close> and \<^verbatim>\<open>ShuffleDecorator.play_all\<close> both contain.
\<close>

fun play_each :: "ref \<Rightarrow> song list \<Rightarrow> world \<Rightarrow> error + world" where
  "play_each player [] w = Inr w"
| "play_each player (s # ss) w =
     (case MusicPlayer_play player s w of
        Inl e \<Rightarrow> Inl e
      | Inr w' \<Rightarrow> play_each player ss (time_sleep (1/5) w'))"

text \<open>
  \<^verbatim>\<open>random.shuffle(x)\<close> is the standard library's exchange shuffle,
  \<^verbatim>\<open>for i in reversed(range(1, len(x))): j = randbelow(i + 1); x[i], x[j] = x[j], x[i]\<close>.
  \<open>randbelow n\<close> takes the next raw draw of the world and reduces it below \<open>n\<close>.
\<close>

definition randbelow :: "nat \<Rightarrow> world \<Rightarrow> nat \<times> world" where
  "randbelow n w = (rng w 0 mod n, w\<lparr>rng := (\<lambda>k. rng w (Suc k))\<rparr>)"

fun shuffle_from :: "nat \<Rightarrow> 'a list \<Rightarrow> world \<Rightarrow> 'a list \<times> world" where
  "shuffle_from 0 x w = (x, w)"
| "shuffle_from (Suc i') x w =
     (let i = Suc i' in
      case randbelow (i + 1) w of
        (j, w') \<Rightarrow> shuffle_from i' (x[i := x ! j, j := x ! i]) w')"

definition random_shuffle :: "'a list \<Rightarrow> world \<Rightarrow> 'a list \<times> world" where
  "random_shuffle x w = shuffle_from (length x - 1) x w"

text \<open>\<^verbatim>\<open>range(n)\<close> is \<open>0, ..., n - 1\<close>, and is empty for \<open>n \<le> 0\<close>.\<close>

definition py_range :: "int \<Rightarrow> int list" where
  "py_range n = [0..n - 1]"

text \<open>
  \<^verbatim>\<open>play_all\<close> of the five classes, and the \<^verbatim>\<open>for i in range(self.repeat_count)\<close> loop of
  \<^verbatim>\<open>RepeatDecorator.play_all\<close> as \<open>repeat_loop\<close> over the values of \<open>i\<close> still to come.
  Each call returns the chain as the call leaves it.
\<close>

function play_all :: "playlist \<Rightarrow> world \<Rightarrow> error + playlist \<times> world"
  and repeat_loop :: "int list \<Rightarrow> int \<Rightarrow> playlist \<Rightarrow> world \<Rightarrow> error + playlist \<times> world"
where
  "play_all (BasicPlaylist name songs) w =
     (case MusicPlayer_call (py_print (Playing_playlist name) w) of
        (player, w') \<Rightarrow>
          (case play_each player songs w' of
             Inl e \<Rightarrow> Inl e
           | Inr w'' \<Rightarrow> Inr (BasicPlaylist name songs, w'')))"
| "play_all (PlaylistDecorator p) w =
     (case play_all p w of
        Inl e \<Rightarrow> Inl e
      | Inr (p', w') \<Rightarrow> Inr (PlaylistDecorator p', w'))"
| "play_all (ShuffleDecorator p) w =
     (case random_shuffle (get_songs p) (py_print Shuffle_mode_enabled w) of
        (songs, w') \<Rightarrow>
          (case MusicPlayer_call (py_print Playing_shuffled_playlist w') of
             (player, w'') \<Rightarrow>
               (case play_each player songs w'' of
                  Inl e \<Rightarrow> Inl e
                | Inr w''' \<Rightarrow> Inr (ShuffleDecorator p, w'''))))"
| "play_all (RepeatDecorator p repeat_count) w =
     (case repeat_loop (py_range repeat_count) repeat_count p
             (py_print (Repeat_mode_enabled repeat_count) w) of
        Inl e \<Rightarrow> Inl e
      | Inr (p', w') \<Rightarrow> Inr (RepeatDecorator p' repeat_count, w'))"
| "play_all (AnalyticsDecorator p play_count total_listening_time) w =
     (let w1 = py_print Analytics_tracking_enabled w;
          start_time = fst (time_time w1);
          w2 = snd (time_time w1)
      in case play_all p w2 of
           Inl e \<Rightarrow> Inl e
         | Inr (p', w3) \<Rightarrow>
             (let play_count' = play_count + 1;
                  duration = float_sub (fst (time_time w3)) start_time;
                  w4 = snd (time_time w3);
                  total_listening_time' = py_add total_listening_time duration
              in Inr (AnalyticsDecorator p' play_count' total_listening_time',
                      py_print (Session_complete play_count') w4)))"
| "repeat_loop [] repeat_count p w = Inr (p, w)"
| "repeat_loop (i # rest) repeat_count p w =
     (case play_all p (py_print (Playing_playlist_Round (i + 1)) w) of
        Inl e \<Rightarrow> Inl e
      | Inr (p', w') \<Rightarrow>
          repeat_loop rest repeat_count p'
            (if i < repeat_count - 1
             then time_sleep (3/10) (py_print Repeating_playlist w')
             else w'))"
  by pat_completeness auto

text \<open>
  The loop calls \<^verbatim>\<open>play_all\<close> on the chain the pass before has returned, so termination
  needs that a call keeps the length of the chain.
\<close>

lemma size_play_all_dom:
  "play_all_repeat_loop_dom (Inl (p, w)) \<Longrightarrow> play_all p w = Inr (p', w') \<Longrightarrow> size p' = size p"
  "play_all_repeat_loop_dom (Inr (is, n, q, v)) \<Longrightarrow> repeat_loop is n q v = Inr (q', v') \<Longrightarrow> size q' = size q"
proof (induction p w and "is" n q v arbitrary: p' w' and q' v' rule: play_all_repeat_loop.pinduct)
  case (1 name songs w)
  then show ?case by (auto simp: play_all.psimps split: prod.splits sum.splits)
next
  case (2 p w)
  then show ?case by (auto simp: play_all.psimps split: prod.splits sum.splits)
next
  case (3 p w)
  then show ?case by (auto simp: play_all.psimps split: prod.splits sum.splits)
next
  case (4 p n w)
  then show ?case by (auto simp: play_all.psimps split: prod.splits sum.splits)
next
  case (5 p c t w)
  then show ?case by (auto simp: play_all.psimps Let_def split: prod.splits sum.splits)
next
  case (6 n p w)
  then show ?case by (auto simp: repeat_loop.psimps)
next
  case (7 i rest n p w)
  then show ?case by (auto simp: repeat_loop.psimps split: prod.splits sum.splits)
qed

termination play_all
  by (relation "inv_image (less_than <*lex*> less_than)
        (\<lambda>x. case x of Inl (p, w) \<Rightarrow> (size p, 0)
                   | Inr (is, n, p, w) \<Rightarrow> (size p, Suc (length is)))")
     (auto dest: size_play_all_dom(1))

section \<open>Describing a playlist\<close>

text \<open>\<^verbatim>\<open>str\<close> of an integer, as an f-string formats it: decimal digits, a sign if negative.\<close>

definition digit_char :: "nat \<Rightarrow> char" where
  "digit_char d = ''0123456789'' ! d"

function str_nat :: "nat \<Rightarrow> string" where
  "str_nat n = (if n < 10 then [digit_char n] else str_nat (n div 10) @ [digit_char (n mod 10)])"
  by pat_completeness auto
termination
  by (relation "measure id") auto

declare str_nat.simps [simp del]

definition str_int :: "int \<Rightarrow> string" where
  "str_int i = (if i < 0 then CHR ''-'' # str_nat (nat (- i)) else str_nat (nat i))"

text \<open>
  \<^verbatim>\<open>sum(song.duration for song in self.songs)\<close> starts from 0 and adds the durations from
  left to right.
\<close>

definition py_sum :: "int list \<Rightarrow> int" where
  "py_sum xs = foldl (+) 0 xs"

definition total_duration :: "song list \<Rightarrow> int" where
  "total_duration songs = py_sum (map duration songs)"

text \<open>
  \<^verbatim>\<open>BasicPlaylist.get_info\<close>: the f-string of the source, character by character. The
  decorators append a suffix that starts with an emoji to this string; their
  \<^verbatim>\<open>get_info\<close> is not modelled.
\<close>

definition BasicPlaylist_get_info :: "string \<Rightarrow> song list \<Rightarrow> string" where
  "BasicPlaylist_get_info name songs =
     ''Playlist: '' @ name @ '' | Songs: '' @ str_int (int (length songs)) @
     '' | Duration: '' @ str_int (total_duration songs) @ ''s''"

section \<open>Analytics\<close>

text \<open>The dictionary \<^verbatim>\<open>get_analytics\<close> returns, with its three keys as fields.\<close>

record analytics =
  play_count :: int
  total_listening_time :: pynum
  average_session_time :: pyfloat


section \<open>Sample data and observation of the output\<close>

text \<open>
  The first three songs \<^verbatim>\<open>MusicStreamingSystem.__init__\<close> creates (the demonstrations use
  \<^verbatim>\<open>self.songs[:3]\<close>), a wall clock whose readings are 0.75 seconds apart, the world after
  the first \<^verbatim>\<open>MusicPlayer()\<close> of a run, and that world once \<^verbatim>\<open>set_playback_strategy\<close> has
  installed the MP3 strategy.
\<close>

definition demo_songs :: "song list" where
  "demo_songs =
     [\<lparr>title = ''Bohemian Rhapsody'', artist = ''Queen'', duration = 355, format_type = ''flac''\<rparr>,
      \<lparr>title = ''Stairway to Heaven'', artist = ''Led Zeppelin'', duration = 482, format_type = ''mp3''\<rparr>,
      \<lparr>title = ''Hotel California'', artist = ''Eagles'', duration = 391, format_type = ''streaming''\<rparr>]"

definition demo_readings :: "nat \<Rightarrow> pyfloat" where
  "demo_readings k = Finite (1700000000 + 3/4 * of_nat k)"

definition demo_world :: world where
  "demo_world = snd (MusicPlayer_call (initial_world (\<lambda>k. k) demo_readings))"

definition demo_world_mp3 :: world where
  "demo_world_mp3 =
     put_self 0 \<lparr>current_song = None, is_playing = False, volume = 50,
                 playback_strategy = Some MP3Strategy\<rparr> demo_world"

text \<open>What the \<^verbatim>\<open>play\<close> method of a strategy appends to the output for a song.\<close>

fun strategy_events :: "strategy \<Rightarrow> song \<Rightarrow> event list" where
  "strategy_events MP3Strategy s =
     [Print (Playing_MP3 (title s) (artist s)), Print Using_MP3_decoder, Sleep (1/2)]"
| "strategy_events FLACStrategy s =
     [Print (Playing_FLAC (title s) (artist s)), Print Using_FLAC_decoder, Sleep 1]"
| "strategy_events StreamingStrategy s =
     [Print (Streaming (title s) (artist s)), Print Buffering, Sleep (3/10)]"

text \<open>
  Observations used to state what a run prints: the attributes of the singleton, if the
  class has one and \<^verbatim>\<open>__init__\<close> has run on it; its strategy; the line the first
  \<^verbatim>\<open>MusicPlayer()\<close> of a run prints; the events one \<^verbatim>\<open>player.play(song)\<close> appends; and
  the events of the loop \<^verbatim>\<open>for song in songs: player.play(song); time.sleep(0.2)\<close>.
\<close>

definition current_player :: "world \<Rightarrow> music_player option" where
  "current_player w =
     (case MusicPlayer_instance w of
        None \<Rightarrow> None
      | Some r \<Rightarrow> (case heap w r of Uninitialized \<Rightarrow> None | Initialized p \<Rightarrow> Some p))"

definition strategy_in_use :: "world \<Rightarrow> strategy option" where
  "strategy_in_use w =
     (case current_player w of None \<Rightarrow> None | Some p \<Rightarrow> playback_strategy p)"

definition first_use_events :: "world \<Rightarrow> event list" where
  "first_use_events w =
     (case current_player w of None \<Rightarrow> [Print Music_Player_initialized] | Some p \<Rightarrow> [])"

definition play_events :: "strategy option \<Rightarrow> song \<Rightarrow> event list" where
  "play_events strat s =
     (case strat of None \<Rightarrow> [Print No_playback_strategy_set]
      | Some st \<Rightarrow> strategy_events st s)"

definition played :: "strategy option \<Rightarrow> song list \<Rightarrow> event list" where
  "played strat songs = concat (map (\<lambda>s. play_events strat s @ [Sleep (1/5)]) songs)"

text \<open>
  The worlds a program can be in: it starts with the class unused and then calls, in any
  order and any number of times, \<^verbatim>\<open>MusicPlayer()\<close>, the methods of the player on any
  reference, and \<^verbatim>\<open>add_song\<close> and \<^verbatim>\<open>play_all\<close> on any playlist. A call that raises ends the
  program.
\<close>

inductive reachable :: "world \<Rightarrow> bool" where
  start: "reachable (initial_world draws readings)"
| call: "reachable w \<Longrightarrow> MusicPlayer_call w = (r, w') \<Longrightarrow> reachable w'"
| set_playback_strategy:
    "reachable w \<Longrightarrow> set_playback_strategy r strat w = Inr w' \<Longrightarrow> reachable w'"
| play: "reachable w \<Longrightarrow> MusicPlayer_play r s w = Inr w' \<Longrightarrow> reachable w'"
| pause: "reachable w \<Longrightarrow> MusicPlayer_pause r w = Inr w' \<Longrightarrow> reachable w'"
| stop: "reachable w \<Longrightarrow> MusicPlayer_stop r w = Inr w' \<Longrightarrow> reachable w'"
| set_volume: "reachable w \<Longrightarrow> set_volume r v w = Inr w' \<Longrightarrow> reachable w'"
| add_song: "reachable w \<Longrightarrow> add_song p s w = (p', w') \<Longrightarrow> reachable w'"
| play_all: "reachable w \<Longrightarrow> play_all p w = Inr (p', w') \<Longrightarrow> reachable w'"

text \<open>
  Either no object exists and \<^verbatim>\<open>_instance\<close> is \<^verbatim>\<open>None\<close>, or one object exists, at address 0,
  and \<^verbatim>\<open>_instance\<close> refers to it.
\<close>

definition singleton_inv :: "world \<Rightarrow> bool" where
  "singleton_inv w =
     (MusicPlayer_instance w = None \<and> allocated w = 0 \<or>
      MusicPlayer_instance w = Some 0 \<and> allocated w = 1)"

text \<open>
  The specification of the repeat decorator, in its words: the inner \<^verbatim>\<open>play_all\<close> is called
  exactly \<open>m\<close> times, one pass after the other (pass \<open>k\<close>, then \<open>k + 1\<close>, ...), with a
  pause between two passes and none after the last.
\<close>

fun spec_repetitions :: "nat \<Rightarrow> int \<Rightarrow> playlist \<Rightarrow> world \<Rightarrow> error + playlist \<times> world" where
  "spec_repetitions 0 k p w = Inr (p, w)"
| "spec_repetitions (Suc m) k p w =
     (case play_all p (py_print (Playing_playlist_Round k) w) of
        Inl e \<Rightarrow> Inl e
      | Inr (p', w') \<Rightarrow>
          (if m = 0 then Inr (p', w')
           else spec_repetitions m (k + 1) p'
                  (time_sleep (3/10) (py_print Repeating_playlist w'))))"


text \<open>
  A tracked playlist of the sample songs, and a session in the manner of \<^verbatim>\<open>main\<close>: an
  \<^verbatim>\<open>AnalyticsDecorator\<close> around a base playlist of one song is played once and
  \<^verbatim>\<open>get_analytics\<close> is called. The session gives the decorator as the play has left it and
  the dictionary. The player has the MP3 strategy; the two readings of the wall clock are
  0.75 seconds apart.
\<close>

definition demo_tracked :: playlist where
  "demo_tracked = AnalyticsDecorator (BasicPlaylist ''Classic Rock Hits'' demo_songs) 0 Int0"


text \<open>
  The attribute \<^verbatim>\<open>songs\<close> of the base playlist at the end of a chain: what the playlist
  holds, read from the object and not through \<^verbatim>\<open>get_songs\<close>.
\<close>

fun stored_songs :: "playlist \<Rightarrow> song list" where
  "stored_songs (BasicPlaylist name songs) = songs"
| "stored_songs (PlaylistDecorator p) = stored_songs p"
| "stored_songs (ShuffleDecorator p) = stored_songs p"
| "stored_songs (RepeatDecorator p n) = stored_songs p"
| "stored_songs (AnalyticsDecorator p c t) = stored_songs p"

section \<open>What each operation leaves unchanged\<close>

lemma py_print_simps [simp]:
  "out (py_print m w) = out w @ [Print m]"
  "heap (py_print m w) = heap w"
  "MusicPlayer_instance (py_print m w) = MusicPlayer_instance w"
  "allocated (py_print m w) = allocated w"
  "wall_clock (py_print m w) = wall_clock w"
  "rng (py_print m w) = rng w"
  by (simp_all add: py_print_def)

lemma time_sleep_simps [simp]:
  "out (time_sleep d w) = out w @ [Sleep d]"
  "heap (time_sleep d w) = heap w"
  "MusicPlayer_instance (time_sleep d w) = MusicPlayer_instance w"
  "allocated (time_sleep d w) = allocated w"
  "wall_clock (time_sleep d w) = wall_clock w"
  "rng (time_sleep d w) = rng w"
  by (simp_all add: time_sleep_def)

lemma put_self_simps [simp]:
  "out (put_self r p w) = out w"
  "heap (put_self r p w) = (heap w)(r := Initialized p)"
  "MusicPlayer_instance (put_self r p w) = MusicPlayer_instance w"
  "allocated (put_self r p w) = allocated w"
  "wall_clock (put_self r p w) = wall_clock w"
  "rng (put_self r p w) = rng w"
  by (simp_all add: put_self_def)

lemma PlaybackStrategy_play_simps [simp]:
  "out (PlaybackStrategy_play strat s w) = out w @ strategy_events strat s"
  "heap (PlaybackStrategy_play strat s w) = heap w"
  "MusicPlayer_instance (PlaybackStrategy_play strat s w) = MusicPlayer_instance w"
  "allocated (PlaybackStrategy_play strat s w) = allocated w"
  "rng (PlaybackStrategy_play strat s w) = rng w"
  by (cases strat; simp)+

lemma current_player_cong:
  "heap w' = heap w \<Longrightarrow> MusicPlayer_instance w' = MusicPlayer_instance w \<Longrightarrow>
   current_player w' = current_player w"
  by (simp add: current_player_def split: option.splits)

lemma get_self_frame [simp]:
  "get_self r (py_print m w) = get_self r w"
  "get_self r (time_sleep d w) = get_self r w"
  "get_self r (PlaybackStrategy_play strat s w) = get_self r w"
  "get_self r (put_self r p w) = Inr p"
  by (simp_all add: get_self_def)

lemma randbelow_simps [simp]:
  "fst (randbelow n w) = rng w 0 mod n"
  "out (snd (randbelow n w)) = out w"
  "heap (snd (randbelow n w)) = heap w"
  "MusicPlayer_instance (snd (randbelow n w)) = MusicPlayer_instance w"
  "allocated (snd (randbelow n w)) = allocated w"
  "wall_clock (snd (randbelow n w)) = wall_clock w"
  by (simp_all add: randbelow_def)

lemma time_time_simps [simp]:
  "fst (time_time w) = wall_clock w 0"
  "out (snd (time_time w)) = out w"
  "heap (snd (time_time w)) = heap w"
  "MusicPlayer_instance (snd (time_time w)) = MusicPlayer_instance w"
  "allocated (snd (time_time w)) = allocated w"
  "rng (snd (time_time w)) = rng w"
  by (simp_all add: time_time_def)

section \<open>Properties of the player\<close>

lemma get_self_MusicPlayer_call:
  "\<exists>p. get_self (fst (MusicPlayer_call w)) (snd (MusicPlayer_call w)) = Inr p"
  by (auto simp: MusicPlayer_call_def MusicPlayer_new_def MusicPlayer_init_def get_self_def
      py_print_def Let_def split: option.splits player_obj.splits)

lemma get_self_demo_world:
  "get_self 0 demo_world =
     Inr \<lparr>current_song = None, is_playing = False, volume = 50, playback_strategy = None\<rparr>"
  by (simp add: demo_world_def MusicPlayer_call_def MusicPlayer_new_def MusicPlayer_init_def
      initial_world_def get_self_def py_print_def)

lemma get_self_demo_world_mp3:
  "get_self 0 demo_world_mp3 =
     Inr \<lparr>current_song = None, is_playing = False, volume = 50,
          playback_strategy = Some MP3Strategy\<rparr>"
  by (simp add: demo_world_mp3_def get_self_def put_self_def)

lemma set_playback_strategy_demo_world:
  "set_playback_strategy 0 MP3Strategy demo_world = Inr demo_world_mp3"
  by (simp add: set_playback_strategy_def get_self_demo_world demo_world_mp3_def)

text \<open>
  Claim C4. On a player whose \<^verbatim>\<open>playback_strategy\<close> is \<^verbatim>\<open>None\<close>, \<^verbatim>\<open>play\<close> returns without an
  exception, prints the failure line and changes nothing else: every object of the store,
  the player's attributes among them, and the class attribute stay as they were. On a
  player with a strategy it sets \<^verbatim>\<open>current_song\<close> to the song and \<^verbatim>\<open>is_playing\<close> to true, and
  runs the strategy's \<^verbatim>\<open>play\<close> on the song.
\<close>

theorem MusicPlayer_play_spec:
  assumes "get_self r w = Inr p"
  shows "(playback_strategy p = None \<longrightarrow>
            (\<exists>w'. MusicPlayer_play r s w = Inr w' \<and>
               heap w' = heap w \<and> MusicPlayer_instance w' = MusicPlayer_instance w \<and>
               get_self r w' = Inr p \<and>
               out w' = out w @ [Print No_playback_strategy_set])) \<and>
         (\<forall>strat. playback_strategy p = Some strat \<longrightarrow>
            (\<exists>w'. MusicPlayer_play r s w = Inr w' \<and>
               get_self r w' = Inr (p\<lparr>current_song := Some s, is_playing := True\<rparr>) \<and>
               w' = PlaybackStrategy_play strat s
                      (put_self r (p\<lparr>current_song := Some s, is_playing := True\<rparr>) w) \<and>
               out w' = out w @ strategy_events strat s))"
  using assms
  by (auto simp: MusicPlayer_play_def get_self_def put_self_def py_print_def
      split: player_obj.splits)

theorem MusicPlayer_play_spec_witness:
  "get_self 0 demo_world =
     Inr \<lparr>current_song = None, is_playing = False, volume = 50, playback_strategy = None\<rparr> \<and>
   (\<exists>w'. MusicPlayer_play 0 (hd demo_songs) demo_world = Inr w' \<and>
      heap w' = heap demo_world \<and>
      MusicPlayer_instance w' = MusicPlayer_instance demo_world \<and>
      get_self 0 w' =
        Inr \<lparr>current_song = None, is_playing = False, volume = 50, playback_strategy = None\<rparr> \<and>
      out w' = out demo_world @ [Print No_playback_strategy_set]) \<and>
   get_self 0 demo_world_mp3 =
     Inr \<lparr>current_song = None, is_playing = False, volume = 50,
          playback_strategy = Some MP3Strategy\<rparr> \<and>
   (\<exists>w'. MusicPlayer_play 0 (hd demo_songs) demo_world_mp3 = Inr w' \<and>
      get_self 0 w' =
        Inr \<lparr>current_song = Some (hd demo_songs), is_playing = True, volume = 50,
             playback_strategy = Some MP3Strategy\<rparr> \<and>
      out w' = out demo_world_mp3 @
        [Print (Playing_MP3 ''Bohemian Rhapsody'' ''Queen''), Print Using_MP3_decoder, Sleep (1/2)])"
  using MusicPlayer_play_spec [OF get_self_demo_world, of "hd demo_songs"]
    MusicPlayer_play_spec [OF get_self_demo_world_mp3, of "hd demo_songs"]
    get_self_demo_world get_self_demo_world_mp3
  by (auto simp: demo_songs_def)

text \<open>
  Claim C6. \<^verbatim>\<open>set_volume(v)\<close> returns without an exception for every integer \<open>v\<close> and stores
  0 for \<open>v < 0\<close>, 100 for \<open>v > 100\<close> and \<open>v\<close> otherwise; the other attributes keep their
  values.
\<close>

theorem set_volume_clamps:
  assumes "get_self r w = Inr p"
  shows "\<exists>w'. set_volume r v w = Inr w' \<and>
           get_self r w' = Inr (p\<lparr>volume := (if v < 0 then 0 else if 100 < v then 100 else v)\<rparr>)"
  using assms
  by (auto simp: set_volume_def get_self_def put_self_def py_print_def Let_def
      split: player_obj.splits)

theorem set_volume_clamps_witness:
  "get_self 0 demo_world = Inr \<lparr>current_song = None, is_playing = False, volume = 50, playback_strategy = None\<rparr> \<and>
   (\<exists>w'. set_volume 0 (- 5) demo_world = Inr w' \<and>
      get_self 0 w' = Inr \<lparr>current_song = None, is_playing = False, volume = 0, playback_strategy = None\<rparr>) \<and>
   (\<exists>w'. set_volume 0 150 demo_world = Inr w' \<and>
      get_self 0 w' = Inr \<lparr>current_song = None, is_playing = False, volume = 100, playback_strategy = None\<rparr>) \<and>
   (\<exists>w'. set_volume 0 42 demo_world = Inr w' \<and>
      get_self 0 w' = Inr \<lparr>current_song = None, is_playing = False, volume = 42, playback_strategy = None\<rparr>)"
  using set_volume_clamps [OF get_self_demo_world, of "- 5"]
    set_volume_clamps [OF get_self_demo_world, of 150]
    set_volume_clamps [OF get_self_demo_world, of 42]
    get_self_demo_world
  by simp

section \<open>Properties of the strategy lookup\<close>

text \<open>
  Claim C9. For a song whose \<^verbatim>\<open>format_type\<close> is none of \<^verbatim>\<open>mp3\<close>, \<^verbatim>\<open>flac\<close>, \<^verbatim>\<open>streaming\<close>, the
  lookup in the system's dictionary raises nothing and gives the MP3 strategy.
\<close>

theorem unknown_format_falls_back_to_MP3:
  assumes "format_type s \<notin> {''mp3'', ''flac'', ''streaming''}"
  shows "select_strategy strategies s = Inr MP3Strategy"
  using assms by (simp add: select_strategy_def strategies_def)

theorem unknown_format_falls_back_to_MP3_witness:
  "format_type \<lparr>title = ''t'', artist = ''a'', duration = 1, format_type = ''wav''\<rparr>
     \<notin> {''mp3'', ''flac'', ''streaming''} \<and>
   select_strategy strategies \<lparr>title = ''t'', artist = ''a'', duration = 1, format_type = ''wav''\<rparr>
     = Inr MP3Strategy"
  using unknown_format_falls_back_to_MP3
    [of "\<lparr>title = ''t'', artist = ''a'', duration = 1, format_type = ''wav''\<rparr>"]
  by simp

section \<open>Properties of the base playlist's description\<close>

lemma py_sum_eq: "py_sum xs = sum_list xs"
proof -
  have "foldl (+) a xs = a + sum_list xs" for a :: int
    by (induction xs arbitrary: a) simp_all
  then show ?thesis by (simp add: py_sum_def)
qed

lemma get_info_demo:
  "BasicPlaylist_get_info ''Classic Rock Hits'' demo_songs =
     ''Playlist: Classic Rock Hits | Songs: 3 | Duration: 1228s''"
  by code_simp

text \<open>
  Claim C8. The string \<^verbatim>\<open>get_info\<close> of a base playlist returns carries the number of songs
  and the sum of their durations; for the three sample songs, whose durations are 355,
  482 and 391, it reports 3 songs and 1228 seconds.
\<close>

theorem get_info_reports_count_and_total:
  "BasicPlaylist_get_info name songs =
     ''Playlist: '' @ name @ '' | Songs: '' @ str_int (int (length songs)) @
     '' | Duration: '' @ str_int (\<Sum>s\<leftarrow>songs. duration s) @ ''s'' \<and>
   map duration demo_songs = [355, 482, 391] \<and>
   BasicPlaylist_get_info ''Classic Rock Hits'' demo_songs =
     ''Playlist: Classic Rock Hits | Songs: 3 | Duration: 1228s''"
  by (simp add: get_info_demo) (simp add: BasicPlaylist_get_info_def total_duration_def py_sum_eq demo_songs_def)

section \<open>Properties of the base playlist and the shuffle decorator\<close>

lemma MusicPlayer_call_result:
  assumes "MusicPlayer_call w = (r, w1)"
  shows "MusicPlayer_instance w1 = Some r"
    and "\<exists>p. get_self r w1 = Inr p \<and> playback_strategy p = strategy_in_use w"
    and "out w1 = out w @ first_use_events w"
    and "rng w1 = rng w"
    and "wall_clock w1 = wall_clock w"
  using assms
  by (auto simp: MusicPlayer_call_def MusicPlayer_new_def MusicPlayer_init_def get_self_def
      current_player_def strategy_in_use_def first_use_events_def Let_def
      split: option.splits player_obj.splits)

lemma MusicPlayer_play_result:
  assumes "get_self r w = Inr p"
  shows "\<exists>w' p'. MusicPlayer_play r s w = Inr w' \<and> get_self r w' = Inr p' \<and>
           playback_strategy p' = playback_strategy p \<and>
           out w' = out w @ play_events (playback_strategy p) s \<and>
           MusicPlayer_instance w' = MusicPlayer_instance w \<and>
           allocated w' = allocated w \<and> rng w' = rng w"
  using assms
  by (cases "playback_strategy p") (simp_all add: MusicPlayer_play_def play_events_def)

lemma play_each_result:
  assumes "get_self r w = Inr p"
  shows "\<exists>w' p'. play_each r songs w = Inr w' \<and> get_self r w' = Inr p' \<and>
           playback_strategy p' = playback_strategy p \<and>
           out w' = out w @ played (playback_strategy p) songs \<and>
           MusicPlayer_instance w' = MusicPlayer_instance w \<and>
           allocated w' = allocated w \<and> rng w' = rng w"
  using assms
proof (induction songs arbitrary: w p)
  case Nil
  then show ?case by (simp add: played_def)
next
  case (Cons s songs)
  from MusicPlayer_play_result [OF Cons.prems, of s]
  obtain w1 p1 where 1: "MusicPlayer_play r s w = Inr w1" "get_self r w1 = Inr p1"
    "playback_strategy p1 = playback_strategy p"
    "out w1 = out w @ play_events (playback_strategy p) s"
    "MusicPlayer_instance w1 = MusicPlayer_instance w" "allocated w1 = allocated w"
    "rng w1 = rng w"
    by blast
  have "get_self r (time_sleep (1/5) w1) = Inr p1"
    using 1(2) by simp
  from Cons.IH [OF this] 1 show ?case
    by (auto simp: played_def)
qed

lemma played_None:
  "played None songs = concat (replicate (length songs) [Print No_playback_strategy_set, Sleep (1/5)])"
  by (induction songs) (simp_all add: played_def play_events_def)

lemma current_player_demo_world:
  "current_player demo_world =
     Some \<lparr>current_song = None, is_playing = False, volume = 50, playback_strategy = None\<rparr>"
  by (simp add: current_player_def demo_world_def MusicPlayer_call_def MusicPlayer_new_def
      MusicPlayer_init_def initial_world_def)

text \<open>
  Claim C7. \<^verbatim>\<open>play_all\<close> of a base playlist returns without an exception, leaves the
  playlist as it was, runs the loop of \<^verbatim>\<open>player.play(song)\<close> over the whole list on the
  instance \<^verbatim>\<open>MusicPlayer()\<close> gives, and after its first line (and the line of the first \<^verbatim>\<open>MusicPlayer()\<close>
  of a run, if this is it) appends for each song of the list, in the order of the list,
  what \<^verbatim>\<open>player.play(song)\<close> prints followed by the pause of 0.2 seconds. With no
  strategy set each song gives the failure line, one for every song: the loop never
  stops early.
\<close>

theorem BasicPlaylist_play_all_plays_every_song:
  "\<exists>w'. play_all (BasicPlaylist name songs) w = Inr (BasicPlaylist name songs, w') \<and>
         play_each (fst (MusicPlayer_call (py_print (Playing_playlist name) w))) songs
           (snd (MusicPlayer_call (py_print (Playing_playlist name) w))) = Inr w' \<and>
         out w' = out w @ [Print (Playing_playlist name)] @ first_use_events w @
                  played (strategy_in_use w) songs \<and>
         (strategy_in_use w = None \<longrightarrow>
            out w' = out w @ [Print (Playing_playlist name)] @ first_use_events w @
                     concat (replicate (length songs)
                       [Print No_playback_strategy_set, Sleep (1/5)]))"
proof -
  obtain r w1 where c: "MusicPlayer_call (py_print (Playing_playlist name) w) = (r, w1)"
    by (cases "MusicPlayer_call (py_print (Playing_playlist name) w)")
  have same: "current_player (py_print (Playing_playlist name) w) = current_player w"
    by (rule current_player_cong) simp_all
  from MusicPlayer_call_result(2,3) [OF c] same
  obtain p where p: "get_self r w1 = Inr p" "playback_strategy p = strategy_in_use w"
    and o: "out w1 = out w @ [Print (Playing_playlist name)] @ first_use_events w"
    by (auto simp: strategy_in_use_def first_use_events_def)
  from play_each_result [OF p(1), of songs] obtain w' where
    "play_each r songs w1 = Inr w'" "out w' = out w1 @ played (playback_strategy p) songs"
    by blast
  with c p o show ?thesis by (simp add: played_None)
qed

theorem BasicPlaylist_play_all_plays_every_song_witness:
  "strategy_in_use demo_world = None \<and>
   (\<exists>w'. play_all (BasicPlaylist ''Classic Rock Hits'' demo_songs) demo_world =
           Inr (BasicPlaylist ''Classic Rock Hits'' demo_songs, w') \<and>
         play_each (fst (MusicPlayer_call (py_print (Playing_playlist ''Classic Rock Hits'')
             demo_world))) demo_songs
           (snd (MusicPlayer_call (py_print (Playing_playlist ''Classic Rock Hits'')
             demo_world))) = Inr w' \<and>
         out w' = out demo_world @ [Print (Playing_playlist ''Classic Rock Hits'')] @
                  first_use_events demo_world @
                  concat (replicate (length demo_songs)
                    [Print No_playback_strategy_set, Sleep (1/5)]))"
proof -
  have n: "strategy_in_use demo_world = None"
    by (simp add: strategy_in_use_def current_player_demo_world)
  from BasicPlaylist_play_all_plays_every_song [of "''Classic Rock Hits''" demo_songs demo_world] n
  show ?thesis by blast
qed



lemma shuffle_from_result:
  assumes "i < length x \<or> i = 0"
  shows "mset (fst (shuffle_from i x w)) = mset x \<and>
         out (snd (shuffle_from i x w)) = out w \<and>
         heap (snd (shuffle_from i x w)) = heap w \<and>
         MusicPlayer_instance (snd (shuffle_from i x w)) = MusicPlayer_instance w \<and>
         allocated (snd (shuffle_from i x w)) = allocated w \<and>
         wall_clock (snd (shuffle_from i x w)) = wall_clock w"
  using assms
proof (induction i arbitrary: x w)
  case 0
  then show ?case by simp
next
  case (Suc i)
  let ?j = "rng w 0 mod (Suc i + 1)"
  let ?x = "x[Suc i := x ! ?j, ?j := x ! Suc i]"
  from Suc.prems have i: "Suc i < length x" by simp
  have "?j < Suc i + 1" by simp
  with i have j: "?j < length x" by linarith
  have m: "mset ?x = mset x"
    using i j by (simp add: mset_swap)
  have "i < length ?x \<or> i = 0" using i by simp
  from Suc.IH [OF this, of "snd (randbelow (Suc i + 1) w)"] m
  show ?case
    by (simp add: split_beta Let_def del: mset_update)
qed

lemma random_shuffle_result:
  "mset (fst (random_shuffle x w)) = mset x \<and>
   out (snd (random_shuffle x w)) = out w \<and>
   heap (snd (random_shuffle x w)) = heap w \<and>
   MusicPlayer_instance (snd (random_shuffle x w)) = MusicPlayer_instance w \<and>
   allocated (snd (random_shuffle x w)) = allocated w \<and>
   wall_clock (snd (random_shuffle x w)) = wall_clock w"
  unfolding random_shuffle_def
  by (rule shuffle_from_result) (cases x; simp)

lemma get_songs_stored: "get_songs p = stored_songs p"
  by (induction p) simp_all

lemma ShuffleDecorator_play_all_result:
  "\<exists>perm wp w'.
     random_shuffle (get_songs p) (py_print Shuffle_mode_enabled w) = (perm, wp) \<and>
     mset perm = mset (get_songs p) \<and>
     play_each (fst (MusicPlayer_call (py_print Playing_shuffled_playlist wp))) perm
       (snd (MusicPlayer_call (py_print Playing_shuffled_playlist wp))) = Inr w' \<and>
     get_songs (ShuffleDecorator p) = get_songs p \<and>
     play_all (ShuffleDecorator p) w = Inr (ShuffleDecorator p, w') \<and>
     out w' = out w @ [Print Shuffle_mode_enabled, Print Playing_shuffled_playlist] @
              first_use_events w @ played (strategy_in_use w) perm"
proof -
  define w0 where "w0 = py_print Shuffle_mode_enabled w"
  define perm where "perm = fst (random_shuffle (get_songs p) w0)"
  define w1 where "w1 = py_print Playing_shuffled_playlist (snd (random_shuffle (get_songs p) w0))"
  obtain r w2 where c: "MusicPlayer_call w1 = (r, w2)"
    by (cases "MusicPlayer_call w1")
  note rs = random_shuffle_result [of "get_songs p" w0]
  have f1: "heap w1 = heap w0" "MusicPlayer_instance w1 = MusicPlayer_instance w0"
    "out w1 = out w0 @ [Print Playing_shuffled_playlist]"
    by (simp_all add: w1_def rs)
  have f0: "heap w0 = heap w" "MusicPlayer_instance w0 = MusicPlayer_instance w"
    "out w0 = out w @ [Print Shuffle_mode_enabled]"
    by (simp_all add: w0_def)
  have same: "current_player w1 = current_player w"
    by (rule current_player_cong) (simp_all add: f1 f0)
  have o1: "out w1 = out w @ [Print Shuffle_mode_enabled, Print Playing_shuffled_playlist]"
    by (simp add: f1 f0)
  from MusicPlayer_call_result(2,3) [OF c] same o1
  obtain pl where pl: "get_self r w2 = Inr pl" "playback_strategy pl = strategy_in_use w"
    and o2: "out w2 = out w @ [Print Shuffle_mode_enabled, Print Playing_shuffled_playlist] @
               first_use_events w"
    by (auto simp: strategy_in_use_def first_use_events_def)
  from play_each_result [OF pl(1), of perm] obtain w' where
    e: "play_each r perm w2 = Inr w'" "out w' = out w2 @ played (playback_strategy pl) perm"
    by blast
  have "play_all (ShuffleDecorator p) w = Inr (ShuffleDecorator p, w')"
    using c e(1) by (simp add: split_beta perm_def w1_def w0_def)
  moreover have "mset perm = mset (get_songs p)"
    by (simp add: perm_def rs)
  moreover have "random_shuffle (get_songs p) (py_print Shuffle_mode_enabled w) =
      (perm, snd (random_shuffle (get_songs p) w0))"
    by (simp add: perm_def w0_def)
  moreover have "play_each (fst (MusicPlayer_call w1)) perm (snd (MusicPlayer_call w1)) = Inr w'"
    using c e(1) by simp
  ultimately show ?thesis
    using e(2) o2 pl(2) unfolding w1_def by auto
qed

text \<open>
  Claim C1. \<^verbatim>\<open>play_all\<close> of a \<^verbatim>\<open>ShuffleDecorator\<close> returns without an exception and
  plays, through the player, the list \<open>perm\<close> the shuffle has made of the songs of the
  wrapped playlist. Whatever the random draws are, \<open>perm\<close> has the songs the base playlist
  at the end of the chain holds, with their multiplicities (nothing lost, nothing
  duplicated): \<^verbatim>\<open>get_songs\<close> hands exactly those to the shuffle. The wrapped chain, the list
  of songs it holds included, is returned as it was. The second part says the same of a
  decorator wrapped directly around a base playlist with the songs \<open>songs\<close>.
\<close>

theorem ShuffleDecorator_play_all_plays_a_permutation:
  "(\<exists>perm wp w'.
     random_shuffle (get_songs p) (py_print Shuffle_mode_enabled w) = (perm, wp) \<and>
     mset perm = mset (get_songs p) \<and>
     get_songs p = stored_songs p \<and>
     mset perm = mset (stored_songs p) \<and>
     play_each (fst (MusicPlayer_call (py_print Playing_shuffled_playlist wp))) perm
       (snd (MusicPlayer_call (py_print Playing_shuffled_playlist wp))) = Inr w' \<and>
     get_songs (ShuffleDecorator p) = get_songs p \<and>
     play_all (ShuffleDecorator p) w = Inr (ShuffleDecorator p, w') \<and>
     stored_songs (ShuffleDecorator p) = stored_songs p \<and>
     out w' = out w @ [Print Shuffle_mode_enabled, Print Playing_shuffled_playlist] @
              first_use_events w @ played (strategy_in_use w) perm) \<and>
   (\<exists>perm wp w'.
     random_shuffle songs (py_print Shuffle_mode_enabled w) = (perm, wp) \<and>
     mset perm = mset songs \<and>
     play_each (fst (MusicPlayer_call (py_print Playing_shuffled_playlist wp))) perm
       (snd (MusicPlayer_call (py_print Playing_shuffled_playlist wp))) = Inr w' \<and>
     play_all (ShuffleDecorator (BasicPlaylist name songs)) w =
       Inr (ShuffleDecorator (BasicPlaylist name songs), w') \<and>
     out w' = out w @ [Print Shuffle_mode_enabled, Print Playing_shuffled_playlist] @
              first_use_events w @ played (strategy_in_use w) perm)"
proof -
  from ShuffleDecorator_play_all_result [of p w]
  have 1: "\<exists>perm wp w'.
     random_shuffle (get_songs p) (py_print Shuffle_mode_enabled w) = (perm, wp) \<and>
     mset perm = mset (get_songs p) \<and>
     get_songs p = stored_songs p \<and>
     mset perm = mset (stored_songs p) \<and>
     play_each (fst (MusicPlayer_call (py_print Playing_shuffled_playlist wp))) perm
       (snd (MusicPlayer_call (py_print Playing_shuffled_playlist wp))) = Inr w' \<and>
     get_songs (ShuffleDecorator p) = get_songs p \<and>
     play_all (ShuffleDecorator p) w = Inr (ShuffleDecorator p, w') \<and>
     stored_songs (ShuffleDecorator p) = stored_songs p \<and>
     out w' = out w @ [Print Shuffle_mode_enabled, Print Playing_shuffled_playlist] @
              first_use_events w @ played (strategy_in_use w) perm"
    using get_songs_stored [of p] by (elim exE conjE) (intro exI conjI, simp_all del: play_all.simps)
  from ShuffleDecorator_play_all_result [of "BasicPlaylist name songs" w]
  have 2: "\<exists>perm wp w'.
     random_shuffle songs (py_print Shuffle_mode_enabled w) = (perm, wp) \<and>
     mset perm = mset songs \<and>
     play_each (fst (MusicPlayer_call (py_print Playing_shuffled_playlist wp))) perm
       (snd (MusicPlayer_call (py_print Playing_shuffled_playlist wp))) = Inr w' \<and>
     play_all (ShuffleDecorator (BasicPlaylist name songs)) w =
       Inr (ShuffleDecorator (BasicPlaylist name songs), w') \<and>
     out w' = out w @ [Print Shuffle_mode_enabled, Print Playing_shuffled_playlist] @
              first_use_events w @ played (strategy_in_use w) perm"
    unfolding get_songs.simps by (elim exE conjE) (intro exI conjI, assumption+)
  from 1 2 show ?thesis by (rule conjI)
qed

section \<open>The singleton invariant\<close>

lemma singleton_inv_cong:
  "MusicPlayer_instance w' = MusicPlayer_instance w \<Longrightarrow> allocated w' = allocated w \<Longrightarrow>
   singleton_inv w' = singleton_inv w"
  by (simp add: singleton_inv_def)

lemma singleton_inv_frame [simp]:
  "singleton_inv (py_print m w) = singleton_inv w"
  "singleton_inv (time_sleep d w) = singleton_inv w"
  "singleton_inv (put_self r p w) = singleton_inv w"
  "singleton_inv (PlaybackStrategy_play strat s w) = singleton_inv w"
  "singleton_inv (snd (time_time w)) = singleton_inv w"
  by (simp_all add: singleton_inv_def)

lemma singleton_inv_MusicPlayer_call:
  assumes "singleton_inv w" "MusicPlayer_call w = (r, w')"
  shows "singleton_inv w' \<and> r = 0 \<and> MusicPlayer_instance w' = Some 0 \<and> allocated w' = 1"
  using assms
  by (auto simp: singleton_inv_def MusicPlayer_call_def MusicPlayer_new_def MusicPlayer_init_def
      Let_def split: option.splits player_obj.splits)

lemma singleton_inv_MusicPlayer_play:
  "singleton_inv w \<Longrightarrow> MusicPlayer_play r s w = Inr w' \<Longrightarrow> singleton_inv w'"
  by (auto simp: MusicPlayer_play_def split: sum.splits option.splits)

lemma singleton_inv_play_each:
  "singleton_inv w \<Longrightarrow> play_each r songs w = Inr w' \<Longrightarrow> singleton_inv w'"
proof (induction songs arbitrary: w)
  case Nil
  then show ?case by simp
next
  case (Cons s songs)
  from Cons.prems(2) obtain w1 where 1: "MusicPlayer_play r s w = Inr w1"
    and 2: "play_each r songs (time_sleep (1/5) w1) = Inr w'"
    by (auto split: sum.splits)
  from singleton_inv_MusicPlayer_play [OF Cons.prems(1) 1]
  have "singleton_inv (time_sleep (1/5) w1)" by simp
  from Cons.IH [OF this 2] show ?case .
qed

lemma singleton_inv_random_shuffle:
  "singleton_inv (snd (random_shuffle x w)) = singleton_inv w"
  by (rule singleton_inv_cong) (simp_all add: random_shuffle_result)

lemma singleton_inv_add_song:
  "add_song p s w = (p', w') \<Longrightarrow> singleton_inv w' = singleton_inv w"
  by (induction p arbitrary: p' w') (auto split: prod.splits)

lemma singleton_inv_play_all:
  "singleton_inv w \<Longrightarrow> play_all p w = Inr (p', w') \<Longrightarrow> singleton_inv w'"
  "singleton_inv v \<Longrightarrow> repeat_loop is n q v = Inr (q', v') \<Longrightarrow> singleton_inv v'"
proof (induction p w and "is" n q v arbitrary: p' w' and q' v' rule: play_all_repeat_loop.induct)
  case (1 name songs w)
  obtain r w1 where c: "MusicPlayer_call (py_print (Playing_playlist name) w) = (r, w1)"
    by (cases "MusicPlayer_call (py_print (Playing_playlist name) w)")
  have i: "singleton_inv w1"
    using singleton_inv_MusicPlayer_call [OF _ c] "1.prems"(1) by simp
  from "1.prems"(2) c have "play_each r songs w1 = Inr w'"
    by (simp split: sum.splits)
  from singleton_inv_play_each [OF i this] show ?case .
next
  case (2 p w)
  from "2.prems"(2) obtain p1 where "play_all p w = Inr (p1, w')"
    by (auto split: sum.splits)
  from "2.IH" [OF "2.prems"(1) this] show ?case .
next
  case (3 p w)
  define w0 where "w0 = py_print Playing_shuffled_playlist
    (snd (random_shuffle (get_songs p) (py_print Shuffle_mode_enabled w)))"
  obtain r w1 where c: "MusicPlayer_call w0 = (r, w1)"
    by (cases "MusicPlayer_call w0")
  have "singleton_inv w0"
    using "3.prems"(1) by (simp add: w0_def singleton_inv_random_shuffle)
  from singleton_inv_MusicPlayer_call [OF this c] have i: "singleton_inv w1" by simp
  from "3.prems"(2) c have "play_each r (fst (random_shuffle (get_songs p)
      (py_print Shuffle_mode_enabled w))) w1 = Inr w'"
    by (simp add: split_beta w0_def split: sum.splits)
  from singleton_inv_play_each [OF i this] show ?case .
next
  case (4 p repeat_count w)
  from "4.prems"(2) obtain p1 where
    "repeat_loop (py_range repeat_count) repeat_count p
       (py_print (Repeat_mode_enabled repeat_count) w) = Inr (p1, w')"
    by (auto split: sum.splits)
  from "4.IH" [OF _ this] "4.prems"(1) show ?case by simp
next
  case (5 p play_count total_listening_time w)
  from "5.prems"(2) obtain p1 w1 where
    1: "play_all p (snd (time_time (py_print Analytics_tracking_enabled w))) = Inr (p1, w1)"
    and 2: "w' = py_print (Session_complete (play_count + 1)) (snd (time_time w1))"
    by (auto simp: Let_def split: sum.splits)
  from "5.IH" [OF refl refl refl _ 1] "5.prems"(1) have "singleton_inv w1" by simp
  with 2 show ?case by simp
next
  case (6 repeat_count p w)
  then show ?case by simp
next
  case (7 i rest repeat_count p w)
  from "7.prems"(2) obtain p1 w1 where
    1: "play_all p (py_print (Playing_playlist_Round (i + 1)) w) = Inr (p1, w1)"
    and 2: "repeat_loop rest repeat_count p1
             (if i < repeat_count - 1
              then time_sleep (3/10) (py_print Repeating_playlist w1) else w1) = Inr (q', v')"
    by (auto split: sum.splits)
  from "7.IH"(1) [OF _ 1] "7.prems"(1) have "singleton_inv w1" by simp
  then have "singleton_inv (if i < repeat_count - 1
              then time_sleep (3/10) (py_print Repeating_playlist w1) else w1)"
    by simp
  from "7.IH"(2) [OF 1 refl this 2] show ?case .
qed

lemma reachable_singleton_inv: "reachable w \<Longrightarrow> singleton_inv w"
proof (induction rule: reachable.induct)
  case (start draws readings)
  then show ?case by (simp add: singleton_inv_def initial_world_def)
next
  case (call w r w')
  then show ?case using singleton_inv_MusicPlayer_call by blast
next
  case (set_playback_strategy w r strat w')
  then show ?case by (auto simp: set_playback_strategy_def split: sum.splits)
next
  case (play w r s w')
  then show ?case using singleton_inv_MusicPlayer_play by blast
next
  case (pause w r w')
  then show ?case by (auto simp: MusicPlayer_pause_def split: sum.splits if_splits)
next
  case (stop w r w')
  then show ?case by (auto simp: MusicPlayer_stop_def split: sum.splits)
next
  case (set_volume w r v w')
  then show ?case by (auto simp: set_volume_def Let_def split: sum.splits)
next
  case (add_song w p s p' w')
  then show ?case using singleton_inv_add_song by blast
next
  case (play_all w p p' w')
  then show ?case using singleton_inv_play_all(1) by blast
qed

text \<open>
  Claim C5. In every world a single-threaded program can reach, at most one \<^verbatim>\<open>MusicPlayer\<close>
  object has been created, and \<^verbatim>\<open>MusicPlayer()\<close> returns the reference 0: every access, from
  any call site and after any sequence of operations, returns the same object, and after
  it exactly one object exists.
\<close>

theorem MusicPlayer_is_a_singleton:
  assumes "reachable w"
  shows "allocated w \<le> 1 \<and>
         fst (MusicPlayer_call w) = 0 \<and>
         MusicPlayer_instance (snd (MusicPlayer_call w)) = Some 0 \<and>
         allocated (snd (MusicPlayer_call w)) = 1 \<and>
         reachable (snd (MusicPlayer_call w))"
proof -
  from assms have i: "singleton_inv w" by (rule reachable_singleton_inv)
  obtain r w' where c: "MusicPlayer_call w = (r, w')" by (cases "MusicPlayer_call w")
  from singleton_inv_MusicPlayer_call [OF i c] reachable.call [OF assms c] i c
  show ?thesis by (auto simp: singleton_inv_def split: option.splits)
qed

theorem MusicPlayer_is_a_singleton_witness:
  "reachable demo_world \<and>
   allocated demo_world \<le> 1 \<and>
   fst (MusicPlayer_call demo_world) = 0 \<and>
   MusicPlayer_instance (snd (MusicPlayer_call demo_world)) = Some 0 \<and>
   allocated (snd (MusicPlayer_call demo_world)) = 1 \<and>
   reachable (snd (MusicPlayer_call demo_world))"
proof -
  have r: "reachable demo_world"
    unfolding demo_world_def
    by (rule reachable.call [OF reachable.start]) (rule prod.collapse [symmetric])
  from MusicPlayer_is_a_singleton [OF r] r show ?thesis by blast
qed

section \<open>Properties of the repeat decorator\<close>

text \<open>No call of \<^verbatim>\<open>play_all\<close> raises.\<close>

lemma play_each_returns:
  "\<exists>w'. play_each (fst (MusicPlayer_call w)) songs (snd (MusicPlayer_call w)) = Inr w'"
proof -
  obtain p where "get_self (fst (MusicPlayer_call w)) (snd (MusicPlayer_call w)) = Inr p"
    using get_self_MusicPlayer_call by blast
  from play_each_result [OF this, of songs] show ?thesis by blast
qed

lemma play_all_returns:
  "\<exists>p' w'. play_all p w = Inr (p', w')"
  "\<exists>q' v'. repeat_loop is n q v = Inr (q', v')"
proof (induction p w and "is" n q v rule: play_all_repeat_loop.induct)
  case (1 name songs w)
  from play_each_returns [of "py_print (Playing_playlist name) w" songs]
  show ?case by (auto simp: split_beta)
next
  case (2 p w)
  then show ?case by auto
next
  case (3 p w)
  from play_each_returns [of "py_print Playing_shuffled_playlist
      (snd (random_shuffle (get_songs p) (py_print Shuffle_mode_enabled w)))"
      "fst (random_shuffle (get_songs p) (py_print Shuffle_mode_enabled w))"]
  show ?case by (auto simp: split_beta)
next
  case (4 p repeat_count w)
  then show ?case by auto
next
  case (5 p play_count total_listening_time w)
  from "5.IH" [OF refl refl refl] show ?case by (auto simp: Let_def)
next
  case (6 repeat_count p w)
  then show ?case by simp
next
  case (7 i rest repeat_count p w)
  from "7.IH"(1) obtain p1 w1 where
    1: "play_all p (py_print (Playing_playlist_Round (i + 1)) w) = Inr (p1, w1)" by blast
  from "7.IH"(2) [OF 1 refl] 1 show ?case by simp
qed

lemma repeat_loop_spec_repetitions:
  "0 \<le> i \<Longrightarrow> nat (n - i) = m \<Longrightarrow>
   repeat_loop [i..n - 1] n p w = spec_repetitions m (i + 1) p w"
proof (induction m arbitrary: i p w)
  case 0
  then have "[i..n - 1] = []" by simp
  then show ?case by simp
next
  case (Suc m)
  then have lt: "i < n" by simp
  then have l: "[i..n - 1] = i # [i + 1..n - 1]" by (simp add: upto_rec1)
  obtain p1 w1 where
    1: "play_all p (py_print (Playing_playlist_Round (i + 1)) w) = Inr (p1, w1)"
    using play_all_returns(1) by blast
  show ?case
  proof (cases "m = 0")
    case True
    with Suc.prems have "i = n - 1" by simp
    with True 1 l show ?thesis by simp
  next
    case False
    with Suc.prems have i: "i < n - 1" by simp
    have "repeat_loop [i + 1..n - 1] n p1 (time_sleep (3/10) (py_print Repeating_playlist w1))
          = spec_repetitions m (i + 1 + 1) p1 (time_sleep (3/10) (py_print Repeating_playlist w1))"
      using Suc.prems by (intro Suc.IH) simp_all
    with False 1 l i show ?thesis by simp
  qed
qed

lemma play_all_AnalyticsDecorator:
  "\<exists>q' w1. play_all q (snd (time_time (py_print Analytics_tracking_enabled w))) = Inr (q', w1) \<and>
     play_all (AnalyticsDecorator q c t) w =
       Inr (AnalyticsDecorator q' (c + 1)
              (py_add t (float_sub (wall_clock w1 0) (wall_clock w 0))),
            py_print (Session_complete (c + 1)) (snd (time_time w1)))"
proof -
  obtain q' w1 where
    "play_all q (snd (time_time (py_print Analytics_tracking_enabled w))) = Inr (q', w1)"
    using play_all_returns(1) by blast
  then show ?thesis by (simp add: Let_def)
qed

lemma spec_repetitions_counts:
  "\<exists>q' t' w'. spec_repetitions m k (AnalyticsDecorator q c t) w =
      Inr (AnalyticsDecorator q' (c + int m) t', w')"
proof (induction m arbitrary: k q c t w)
  case 0
  then show ?case by simp
next
  case (Suc m)
  from play_all_AnalyticsDecorator [of q "py_print (Playing_playlist_Round k) w" c t]
  obtain q1 t1 w1 where 1: "play_all (AnalyticsDecorator q c t) (py_print (Playing_playlist_Round k) w)
      = Inr (AnalyticsDecorator q1 (c + 1) t1, w1)" by blast
  from Suc.IH [of "k + 1" q1 "c + 1" t1 "time_sleep (3/10) (py_print Repeating_playlist w1)"]
  obtain q' t' w' where "spec_repetitions m (k + 1) (AnalyticsDecorator q1 (c + 1) t1)
     (time_sleep (3/10) (py_print Repeating_playlist w1)) = Inr (AnalyticsDecorator q' (c + 1 + int m) t', w')"
    by blast
  with 1 show ?case by (cases "m = 0") (auto simp: add.assoc)
qed

text \<open>
  Claim C2. For \<open>repeat_count = n > 0\<close>, \<^verbatim>\<open>play_all\<close> of a \<^verbatim>\<open>RepeatDecorator\<close> prints its
  first line and then does what the specification says: \<open>n\<close> calls of the inner
  \<^verbatim>\<open>play_all\<close> in sequence, with the pause between two of them and none after the last. It
  returns without an exception; and when the inner object is an \<^verbatim>\<open>AnalyticsDecorator\<close>, which
  counts the calls of its \<^verbatim>\<open>play_all\<close>, its counter has gone up by exactly \<open>n\<close>.
\<close>

theorem RepeatDecorator_play_all_repeats:
  assumes "0 < n"
  shows "play_all (RepeatDecorator p n) w =
           (case spec_repetitions (nat n) 1 p (py_print (Repeat_mode_enabled n) w) of
              Inl e \<Rightarrow> Inl e
            | Inr (p', w') \<Rightarrow> Inr (RepeatDecorator p' n, w')) \<and>
         (\<exists>p' w'. play_all (RepeatDecorator p n) w = Inr (RepeatDecorator p' n, w')) \<and>
         (\<forall>q c t. p = AnalyticsDecorator q c t \<longrightarrow>
            (\<exists>q' t' w'. play_all (RepeatDecorator p n) w =
               Inr (RepeatDecorator (AnalyticsDecorator q' (c + n) t') n, w')))"
proof -
  have r: "repeat_loop (py_range n) n p v = spec_repetitions (nat n) 1 p v" for p v
    using repeat_loop_spec_repetitions [of 0 n "nat n" p v] by (simp add: py_range_def)
  have 1: "play_all (RepeatDecorator p n) w =
           (case spec_repetitions (nat n) 1 p (py_print (Repeat_mode_enabled n) w) of
              Inl e \<Rightarrow> Inl e
            | Inr (p', w') \<Rightarrow> Inr (RepeatDecorator p' n, w'))"
    by (simp add: r)
  have 2: "\<exists>p' w'. play_all (RepeatDecorator p n) w = Inr (RepeatDecorator p' n, w')"
    using play_all_returns(2) [of "py_range n" n p "py_print (Repeat_mode_enabled n) w"]
    by auto
  have 3: "\<exists>q' t' w'. play_all (RepeatDecorator (AnalyticsDecorator q c t) n) w =
               Inr (RepeatDecorator (AnalyticsDecorator q' (c + n) t') n, w')" for q c t
    using spec_repetitions_counts [of "nat n" 1 q c t "py_print (Repeat_mode_enabled n) w"] assms
    by (auto simp: r)
  from 1 2 3 show ?thesis by blast
qed

theorem RepeatDecorator_play_all_repeats_witness:
  "(0::int) < 3 \<and>
   play_all (RepeatDecorator demo_tracked 3) demo_world_mp3 =
     (case spec_repetitions (nat 3) 1 demo_tracked (py_print (Repeat_mode_enabled 3) demo_world_mp3) of
        Inl e \<Rightarrow> Inl e
      | Inr (p', w') \<Rightarrow> Inr (RepeatDecorator p' 3, w')) \<and>
   (\<exists>q' t' w'. play_all (RepeatDecorator demo_tracked 3) demo_world_mp3 =
      Inr (RepeatDecorator (AnalyticsDecorator q' 3 t') 3, w'))"
proof -
  have p: "(0::int) < 3" by simp
  from RepeatDecorator_play_all_repeats [OF p, of demo_tracked demo_world_mp3]
  have 1: "play_all (RepeatDecorator demo_tracked 3) demo_world_mp3 =
     (case spec_repetitions (nat 3) 1 demo_tracked (py_print (Repeat_mode_enabled 3) demo_world_mp3) of
        Inl e \<Rightarrow> Inl e
      | Inr (p', w') \<Rightarrow> Inr (RepeatDecorator p' 3, w'))"
    and 2: "\<forall>q c t. demo_tracked = AnalyticsDecorator q c t \<longrightarrow>
            (\<exists>q' t' w'. play_all (RepeatDecorator demo_tracked 3) demo_world_mp3 =
               Inr (RepeatDecorator (AnalyticsDecorator q' (c + 3) t') 3, w'))"
    by blast+
  from 2 [unfolded demo_tracked_def [symmetric], rule_format, of "BasicPlaylist ''Classic Rock Hits'' demo_songs" 0 Int0]
  have "\<exists>q' t' w'. play_all (RepeatDecorator demo_tracked 3) demo_world_mp3 =
      Inr (RepeatDecorator (AnalyticsDecorator q' 3 t') 3, w')"
    by (simp add: demo_tracked_def del: play_all.simps)
  with p 1 show ?thesis by blast
qed

lemma py_range_nonpos: "n \<le> 0 \<Longrightarrow> py_range n = []"
  by (simp add: py_range_def)

text \<open>
  Claim C10. A \<^verbatim>\<open>RepeatDecorator\<close> is built with any integer; with \<open>repeat_count \<le> 0\<close> its
  \<^verbatim>\<open>play_all\<close> prints its first line, never calls the inner \<^verbatim>\<open>play_all\<close> (the inner chain
  and the rest of the world are untouched) and returns without an exception.
\<close>

theorem repeat_nonpositive_plays_nothing:
  assumes "n \<le> 0"
  shows "play_all (RepeatDecorator p n) w =
           Inr (RepeatDecorator p n, py_print (Repeat_mode_enabled n) w)"
  using assms by (simp add: py_range_nonpos)

theorem repeat_nonpositive_plays_nothing_witness:
  "(0::int) \<le> 0 \<and> (- 2::int) \<le> 0 \<and>
   play_all (RepeatDecorator (BasicPlaylist ''Classic Rock Hits'' demo_songs) 0) demo_world =
     Inr (RepeatDecorator (BasicPlaylist ''Classic Rock Hits'' demo_songs) 0,
          py_print (Repeat_mode_enabled 0) demo_world) \<and>
   play_all (RepeatDecorator (BasicPlaylist ''Classic Rock Hits'' demo_songs) (- 2)) demo_world =
     Inr (RepeatDecorator (BasicPlaylist ''Classic Rock Hits'' demo_songs) (- 2),
          py_print (Repeat_mode_enabled (- 2)) demo_world)"
  using repeat_nonpositive_plays_nothing [of 0 "BasicPlaylist ''Classic Rock Hits'' demo_songs" demo_world]
    repeat_nonpositive_plays_nothing [of "- 2" "BasicPlaylist ''Classic Rock Hits'' demo_songs" demo_world]
  by simp

section \<open>Properties of the float operations\<close>










section \<open>Properties of the analytics decorator\<close>









end
